theory Spec2Isabelle
  imports Main "HOL-Library.Word"
begin

section \<open>LilithOS kernel patches: the patch table and its two entry points\<close>

text \<open>
  The development embeds \<^verbatim>\<open>src/kernel/patches.c\<close>. The file declares a static array
  \<^verbatim>\<open>patches\<close> of \<^verbatim>\<open>struct kernel_patch\<close> and two functions without parameters,
  \<^verbatim>\<open>apply_kernel_patches\<close> and \<^verbatim>\<open>verify_kernel_patches\<close>. Everything the two
  functions can see or change is collected in one record, \<open>world\<close>, which the model
  passes in and hands back together with the returned status code.
\<close>

subsection \<open>Types and constants\<close>

type_synonym uint32_t = "32 word"

text \<open>
  \<^verbatim>\<open>kern_return_t\<close> is \<^verbatim>\<open>int\<close>, 32 bits wide on the target (iPhone 4S, 32-bit ARM);
  \<open>sint\<close> reads its signed value. The value of \<^verbatim>\<open>KERN_SUCCESS\<close> comes from the system
  header \<^verbatim>\<open><mach/kern_return.h>\<close>, where it is 0.
\<close>

type_synonym kern_return_t = "32 word"

definition KERN_SUCCESS :: kern_return_t where
  "KERN_SUCCESS = 0"

definition KERNEL_BASE :: uint32_t where
  "KERNEL_BASE = 0x80001000"

definition KERNEL_SIZE :: uint32_t where
  "KERNEL_SIZE = 0x10000000"

text \<open>
  \<^verbatim>\<open>struct kernel_patch\<close>. The field \<open>description\<close> holds the characters of the
  NUL-terminated string that the pointer \<^verbatim>\<open>const char *description\<close> refers to.
\<close>

record kernel_patch =
  offset :: uint32_t
  original :: uint32_t
  patched :: uint32_t
  description :: string

text \<open>The initialiser of the static array \<^verbatim>\<open>patches\<close>, in source order.\<close>

definition sample_patches :: "kernel_patch list" where
  "sample_patches =
    [\<lparr>offset = 0x12345678, original = 0xE3500000, patched = 0xE3A00000,
      description = ''Disable code signing''\<rparr>,
     \<lparr>offset = 0x87654321, original = 0xE3500001, patched = 0xE3A00001,
      description = ''Enable custom entitlements''\<rparr>,
     \<lparr>offset = 0x11223344, original = 0xE3500002, patched = 0xE3A00002,
      description = ''Modify sandbox restrictions''\<rparr>]"

subsection \<open>The state the functions run in\<close>

text \<open>
  An access to the target address space is a read of an address or a write of a value
  to an address. The monitor \<open>vm_trace\<close> lists the accesses made so far, oldest first.
\<close>

datatype vm_access = VmRead uint32_t | VmWrite uint32_t uint32_t

text \<open>
  \<^item> \<open>patches\<close>: the contents of the static array (its length is what
    \<^verbatim>\<open>sizeof(patches) / sizeof(patches[0])\<close> evaluates to);
  \<^item> \<open>task_self\<close>: the port name that \<^verbatim>\<open>mach_task_self()\<close> yields;
  \<^item> \<open>target_mem\<close>: the 32-bit words of the target address space;
  \<^item> \<open>vm_trace\<close>: the monitor of reads and writes into the target address space;
  \<^item> \<open>stdout\<close>: the log, one entry for the text written by one \<^verbatim>\<open>printf\<close> call.
\<close>

record world =
  patches :: "kernel_patch list"
  task_self :: uint32_t
  target_mem :: "uint32_t \<Rightarrow> uint32_t"
  vm_trace :: "vm_access list"
  stdout :: "string list"

subsection \<open>The functions\<close>

text \<open>
  The text that \<^verbatim>\<open>printf("Applied patch: %s\n", patch->description)\<close> writes for one
  descriptor: the prefix, the description and a line feed.
\<close>

definition log_line :: "kernel_patch \<Rightarrow> string" where
  "log_line patch = ''Applied patch: '' @ description patch @ [CHR 0x0A]"

definition printf_applied :: "kernel_patch \<Rightarrow> world \<Rightarrow> world" where
  "printf_applied patch w = w\<lparr>stdout := stdout w @ [log_line patch]\<rparr>"

text \<open>
  The loop \<^verbatim>\<open>for (int i = 0; i < sizeof(patches) / sizeof(patches[0]); i++)\<close> from the
  value \<open>i\<close> of its counter on. The counter only takes the values \<open>0\<close> to the length of
  the array, and a static array of 16-byte elements in a 32-bit address space has fewer
  than \<open>2 ^ 28\<close> of them, so the \<^verbatim>\<open>int\<close> counter never leaves its range, its
  conversion to \<^verbatim>\<open>size_t\<close> for the comparison keeps its value, and it is a natural
  number here.
\<close>

function apply_loop :: "nat \<Rightarrow> world \<Rightarrow> world" where
  "apply_loop i w =
     (if i < length (patches w)
      then (let patch = patches w ! i
            in apply_loop (i + 1) (printf_applied patch w))
      else w)"
  by pat_completeness auto
termination
  by (relation "measure (\<lambda>(i, w). length (patches w) - i)")
     (auto simp: printf_applied_def)

declare apply_loop.simps [simp del]

text \<open>
  \<^verbatim>\<open>apply_kernel_patches\<close>: the locals \<open>address\<close>, \<open>size\<close> and \<open>kernel_map\<close> are
  initialised and never used again; the locals \<^verbatim>\<open>info\<close>, \<^verbatim>\<open>info_count\<close> and
  \<^verbatim>\<open>object_name\<close> are never used at all.
\<close>

definition apply_kernel_patches :: "world \<Rightarrow> kern_return_t \<times> world" where
  "apply_kernel_patches w =
     (let address = KERNEL_BASE;
          size = KERNEL_SIZE;
          kernel_map = task_self w;
          w' = apply_loop 0 w
      in (KERN_SUCCESS, w'))"

definition verify_kernel_patches :: "world \<Rightarrow> kern_return_t \<times> world" where
  "verify_kernel_patches w = (KERN_SUCCESS, w)"

text \<open>
  The same loop with a budget of iterations: each run of the body costs one unit, and
  the result is \<open>None\<close> when the budget is used up while the loop condition still holds.
\<close>

fun apply_loop_fuel :: "nat \<Rightarrow> nat \<Rightarrow> world \<Rightarrow> world option" where
  "apply_loop_fuel 0 i w = (if i < length (patches w) then None else Some w)"
| "apply_loop_fuel (Suc fuel) i w =
     (if i < length (patches w)
      then (let patch = patches w ! i
            in apply_loop_fuel fuel (i + 1) (printf_applied patch w))
      else Some w)"

subsection \<open>Observations on a call\<close>

text \<open>A status code other than \<^verbatim>\<open>KERN_SUCCESS\<close> reports an error.\<close>

definition is_error :: "kern_return_t \<Rightarrow> bool" where
  "is_error r = (r \<noteq> KERN_SUCCESS)"

text \<open>The log entries and the memory accesses that a call of \<open>f\<close> in \<open>w\<close> adds.\<close>

definition emitted :: "(world \<Rightarrow> kern_return_t \<times> world) \<Rightarrow> world \<Rightarrow> string list" where
  "emitted f w = drop (length (stdout w)) (stdout (snd (f w)))"

definition accessed :: "(world \<Rightarrow> kern_return_t \<times> world) \<Rightarrow> world \<Rightarrow> vm_access list" where
  "accessed f w = drop (length (vm_trace w)) (vm_trace (snd (f w)))"

text \<open>A sequence of calls of the two entry points, run from left to right.\<close>

datatype call = Apply | Verify

fun do_call :: "call \<Rightarrow> world \<Rightarrow> kern_return_t \<times> world" where
  "do_call Apply w = apply_kernel_patches w"
| "do_call Verify w = verify_kernel_patches w"

fun run :: "call list \<Rightarrow> world \<Rightarrow> world" where
  "run [] w = w"
| "run (c # cs) w = run cs (snd (do_call c w))"

text \<open>Two states that hold the table of the source file and differ everywhere else.\<close>

definition world_a :: world where
  "world_a = \<lparr>patches = sample_patches, task_self = 0x103, target_mem = (\<lambda>a. 0),
     vm_trace = [], stdout = []\<rparr>"

definition world_b :: world where
  "world_b = \<lparr>patches = sample_patches, task_self = 0x207, target_mem = (\<lambda>a. a + 1),
     vm_trace = [VmRead 0x80001000], stdout = [''boot'']\<rparr>"

text \<open>
  The lines of a text, as a reader of the output stream sees them: a line ends at a
  line feed, and characters after the last line feed form a last line. \<open>cur\<close> holds
  the characters of the line being read.
\<close>

fun lines_acc :: "string \<Rightarrow> string \<Rightarrow> string list" where
  "lines_acc cur [] = (if cur = [] then [] else [cur])"
| "lines_acc cur (c # cs) =
     (if c = CHR 0x0A then cur # lines_acc [] cs else lines_acc (cur @ [c]) cs)"

definition lines_of :: "string \<Rightarrow> string list" where
  "lines_of text = lines_acc [] text"

text \<open>A state whose table has one descriptor, with a line feed inside its description.\<close>

definition world_lf :: world where
  "world_lf = \<lparr>patches =
       [\<lparr>offset = 0x12345678, original = 0xE3500000, patched = 0xE3A00000,
         description = ''line1'' @ [CHR 0x0A] @ ''line2''\<rparr>],
     task_self = 0x103, target_mem = (\<lambda>a. 0), vm_trace = [], stdout = []\<rparr>"

subsection \<open>What the loop computes\<close>

lemma patches_printf_applied: "patches (printf_applied patch w) = patches w"
  by (simp add: printf_applied_def)


lemma apply_loop_eq:
  "apply_loop i w = w\<lparr>stdout := stdout w @ map log_line (drop i (patches w))\<rparr>"
proof (induction i w rule: apply_loop.induct)
  case (1 i w)
  show ?case
  proof (cases "i < length (patches w)")
    case True
    have step: "apply_loop i w = apply_loop (i + 1) (printf_applied (patches w ! i) w)"
      using True by (subst apply_loop.simps) simp
    have ih: "apply_loop (i + 1) (printf_applied (patches w ! i) w) =
        (printf_applied (patches w ! i) w)
          \<lparr>stdout := stdout (printf_applied (patches w ! i) w) @
             map log_line (drop (i + 1) (patches (printf_applied (patches w ! i) w)))\<rparr>"
      using "1.IH" [OF True refl] .
    have unfold_drop: "drop i (patches w) = patches w ! i # drop (i + 1) (patches w)"
      using True by (simp add: Cons_nth_drop_Suc)
    show ?thesis
      unfolding step ih by (simp add: printf_applied_def unfold_drop)
  next
    case False
    then show ?thesis
      by (subst apply_loop.simps) simp
  qed
qed

lemma apply_kernel_patches_eq:
  "apply_kernel_patches w =
     (KERN_SUCCESS, w\<lparr>stdout := stdout w @ map log_line (patches w)\<rparr>)"
  by (simp add: apply_kernel_patches_def apply_loop_eq)

lemma verify_kernel_patches_eq: "verify_kernel_patches w = (KERN_SUCCESS, w)"
  by (simp add: verify_kernel_patches_def)

text \<open>A budget that covers the descriptors still to come is enough; a smaller one is not.\<close>

lemma apply_loop_fuel_enough:
  "length (patches w) - i \<le> fuel \<Longrightarrow> apply_loop_fuel fuel i w = Some (apply_loop i w)"
proof (induction fuel arbitrary: i w)
  case 0
  then have "\<not> i < length (patches w)" by simp
  then show ?case by (subst apply_loop.simps) simp
next
  case (Suc fuel)
  show ?case
  proof (cases "i < length (patches w)")
    case True
    let ?w = "printf_applied (patches w ! i) w"
    have "length (patches ?w) - (i + 1) \<le> fuel"
      using Suc.prems by (simp add: patches_printf_applied)
    then have "apply_loop_fuel fuel (i + 1) ?w = Some (apply_loop (i + 1) ?w)"
      by (rule Suc.IH)
    moreover have "apply_loop i w = apply_loop (i + 1) ?w"
      using True by (subst apply_loop.simps) simp
    ultimately show ?thesis using True by simp
  next
    case False
    then show ?thesis by (subst apply_loop.simps) simp
  qed
qed

lemma apply_loop_fuel_short:
  "fuel < length (patches w) - i \<Longrightarrow> apply_loop_fuel fuel i w = None"
proof (induction fuel arbitrary: i w)
  case 0
  then show ?case by simp
next
  case (Suc fuel)
  let ?w = "printf_applied (patches w ! i) w"
  have "fuel < length (patches ?w) - (i + 1)"
    using Suc.prems by (simp add: patches_printf_applied)
  then have "apply_loop_fuel fuel (i + 1) ?w = None"
    by (rule Suc.IH)
  then show ?case using Suc.prems by simp
qed

lemma run_patches: "patches (run cs w) = patches w"
proof (induction cs arbitrary: w)
  case Nil
  show ?case by simp
next
  case (Cons c cs)
  have "patches (snd (do_call c w)) = patches w"
    by (cases c) (simp_all add: apply_kernel_patches_eq verify_kernel_patches_eq)
  then show ?case by (simp add: Cons.IH)
qed

text \<open>
  A log entry is one line of output, with its only line feed at the end, when the
  description has no line feed of its own; none of the descriptions in the source has.
\<close>

lemma log_line_one_line_feed:
  "CHR 0x0A \<notin> set (description patch) \<Longrightarrow> count_list (log_line patch) (CHR 0x0A) = 1"
  by (simp add: log_line_def)

lemma sample_patches_one_line_feed:
  "map (\<lambda>patch. count_list (log_line patch) (CHR 0x0A)) sample_patches = [1, 1, 1]"
  by (simp add: sample_patches_def log_line_def)

text \<open>
  Reading the output back: a segment without a line feed, followed by a line feed, is
  one line, so the entries of descriptors without line feeds are the lines of the stream.
\<close>

lemma lines_acc_segment:
  "CHR 0x0A \<notin> set s \<Longrightarrow> lines_acc cur (s @ CHR 0x0A # rest) = (cur @ s) # lines_acc [] rest"
  by (induction s arbitrary: cur) auto

lemma lines_of_records:
  "CHR 0x0A \<notin> set (concat (map description ps)) \<Longrightarrow>
   lines_of (concat (map log_line ps)) = map (\<lambda>p. ''Applied patch: '' @ description p) ps"
proof (induction ps)
  case Nil
  show ?case by (simp add: lines_of_def)
next
  case (Cons p ps)
  have free: "CHR 0x0A \<notin> set (''Applied patch: '' @ description p)"
    using Cons.prems by simp
  have rest: "lines_acc [] (concat (map log_line ps)) =
      map (\<lambda>p. ''Applied patch: '' @ description p) ps"
    using Cons.IH Cons.prems by (simp add: lines_of_def)
  have split: "concat (map log_line (p # ps)) =
      (''Applied patch: '' @ description p) @ CHR 0x0A # concat (map log_line ps)"
    by (simp add: log_line_def)
  show ?case
    unfolding lines_of_def split lines_acc_segment [OF free] rest by simp
qed

subsection \<open>Properties\<close>

text \<open>
  C1. For every patch table of N descriptors, the empty one included,
  \<^verbatim>\<open>apply_kernel_patches\<close> returns \<^verbatim>\<open>KERN_SUCCESS\<close> and appends to the log, in table
  order, one text \<open>Applied patch: \<close>, description, line feed per descriptor. When no
  description of the table contains a line feed, the output of the call read line by
  line is exactly these N lines, one per descriptor.
\<close>

theorem apply_kernel_patches_lines:
  "fst (apply_kernel_patches w) = KERN_SUCCESS \<and>
   stdout (snd (apply_kernel_patches w)) =
     stdout w @ map (\<lambda>p. ''Applied patch: '' @ description p @ [CHR 0x0A]) (patches w) \<and>
   length (emitted apply_kernel_patches w) = length (patches w) \<and>
   (CHR 0x0A \<notin> set (concat (map description (patches w))) \<longrightarrow>
      lines_of (concat (emitted apply_kernel_patches w)) =
        map (\<lambda>p. ''Applied patch: '' @ description p) (patches w) \<and>
      length (lines_of (concat (emitted apply_kernel_patches w))) = length (patches w))"
proof -
  have records: "map log_line (patches w) =
      map (\<lambda>p. ''Applied patch: '' @ description p @ [CHR 0x0A]) (patches w)"
    by (simp add: log_line_def)
  have out: "emitted apply_kernel_patches w = map log_line (patches w)"
    by (simp add: emitted_def apply_kernel_patches_eq)
  have "CHR 0x0A \<notin> set (concat (map description (patches w))) \<longrightarrow>
      lines_of (concat (emitted apply_kernel_patches w)) =
        map (\<lambda>p. ''Applied patch: '' @ description p) (patches w)"
    unfolding out using lines_of_records [of "patches w"] by blast
  then show ?thesis
    by (simp add: apply_kernel_patches_eq records out)
qed

theorem apply_kernel_patches_lines_witness:
  "CHR 0x0A \<notin> set (concat (map description (patches world_a))) \<and>
   lines_of (concat (emitted apply_kernel_patches world_a)) =
     [''Applied patch: Disable code signing'',
      ''Applied patch: Enable custom entitlements'',
      ''Applied patch: Modify sandbox restrictions''] \<and>
   length (lines_of (concat (emitted apply_kernel_patches world_a))) = 3"
proof -
  have free: "CHR 0x0A \<notin> set (concat (map description (patches world_a)))"
    by (simp add: world_a_def sample_patches_def)
  have tbl: "patches world_a = sample_patches"
    by (simp add: world_a_def)
  show ?thesis
    using free apply_kernel_patches_lines [of world_a]
    by (simp add: tbl sample_patches_def)
qed

text \<open>
  Without the condition on the descriptions the count of lines fails: a table of one
  descriptor whose description is \<open>line1\<close>, line feed, \<open>line2\<close> gives one log entry
  and two lines of output.
\<close>

theorem lines_per_descriptor_counterexample:
  "length (patches world_lf) = 1 \<and>
   lines_of (concat (emitted apply_kernel_patches world_lf)) =
     [''Applied patch: line1'', ''line2''] \<and>
   length (lines_of (concat (emitted apply_kernel_patches world_lf))) \<noteq>
     length (patches world_lf)"
  by (simp add: apply_kernel_patches_eq emitted_def log_line_def world_lf_def lines_of_def)

text \<open>
  C2. \<^verbatim>\<open>verify_kernel_patches\<close> returns \<^verbatim>\<open>KERN_SUCCESS\<close> whatever the table holds,
  tables with placeholder offsets included, and reads no memory before it returns: the
  call adds no access to the monitor and leaves the whole state as it found it.
\<close>

theorem verify_kernel_patches_success:
  "fst (verify_kernel_patches (w\<lparr>patches := table\<rparr>)) = KERN_SUCCESS \<and>
   accessed verify_kernel_patches (w\<lparr>patches := table\<rparr>) = [] \<and>
   snd (verify_kernel_patches (w\<lparr>patches := table\<rparr>)) = w\<lparr>patches := table\<rparr>"
  by (simp add: verify_kernel_patches_eq accessed_def)

text \<open>
  C3. Neither entry point reads or writes the target address space: the target memory,
  and with it the range from \<^verbatim>\<open>KERNEL_BASE\<close> to \<^verbatim>\<open>KERNEL_BASE + KERNEL_SIZE\<close>, is the
  same before and after either call, and the monitor records no access during the call.
\<close>

theorem target_memory_untouched:
  "target_mem (snd (apply_kernel_patches w)) = target_mem w \<and>
   accessed apply_kernel_patches w = [] \<and>
   target_mem (snd (verify_kernel_patches w)) = target_mem w \<and>
   accessed verify_kernel_patches w = []"
  by (simp add: apply_kernel_patches_eq verify_kernel_patches_eq accessed_def)

text \<open>
  C4. With the table of the three sample descriptors (offsets \<open>0x12345678\<close>,
  \<open>0x87654321\<close>, \<open>0x11223344\<close>), \<^verbatim>\<open>apply_kernel_patches\<close> logs the three descriptions
  \<open>Disable code signing\<close>, \<open>Enable custom entitlements\<close> and
  \<open>Modify sandbox restrictions\<close> in table order and returns success, and
  \<^verbatim>\<open>verify_kernel_patches\<close> returns success without any memory access.
\<close>

theorem sample_table_scenario:
  "map offset sample_patches = [0x12345678, 0x87654321, 0x11223344] \<and>
   fst (apply_kernel_patches (w\<lparr>patches := sample_patches\<rparr>)) = KERN_SUCCESS \<and>
   emitted apply_kernel_patches (w\<lparr>patches := sample_patches\<rparr>) =
     [''Applied patch: Disable code signing'' @ [CHR 0x0A],
      ''Applied patch: Enable custom entitlements'' @ [CHR 0x0A],
      ''Applied patch: Modify sandbox restrictions'' @ [CHR 0x0A]] \<and>
   fst (verify_kernel_patches (w\<lparr>patches := sample_patches\<rparr>)) = KERN_SUCCESS \<and>
   accessed verify_kernel_patches (w\<lparr>patches := sample_patches\<rparr>) = []"
  by (simp add: apply_kernel_patches_eq verify_kernel_patches_eq emitted_def accessed_def
      sample_patches_def log_line_def)

text \<open>
  C5. Neither entry point ever detects or reports an error: in every state both return
  \<^verbatim>\<open>KERN_SUCCESS\<close>, so the returned status is never an error status, and every log
  entry of \<^verbatim>\<open>apply_kernel_patches\<close> starts with \<open>Applied patch: \<close>.
\<close>

theorem no_error_surfaced:
  "fst (apply_kernel_patches w) = KERN_SUCCESS \<and>
   fst (verify_kernel_patches w) = KERN_SUCCESS \<and>
   \<not> is_error (fst (apply_kernel_patches w)) \<and>
   \<not> is_error (fst (verify_kernel_patches w)) \<and>
   map (take 15) (emitted apply_kernel_patches w) =
     replicate (length (patches w)) ''Applied patch: ''"
  by (simp add: apply_kernel_patches_eq verify_kernel_patches_eq is_error_def emitted_def
      log_line_def map_replicate_const comp_def)

text \<open>
  C6. The patch table stays as it is under every operation: after any sequence of calls
  of the two entry points the table is the list it was before, descriptor by descriptor
  and field by field, and a run that starts from the table of the source file ends with
  that table.
\<close>

theorem patch_table_unchanged:
  "patches (run cs w) = patches w \<and>
   patches (run cs (w\<lparr>patches := sample_patches\<rparr>)) = sample_patches"
  by (simp add: run_patches)

text \<open>
  C7. \<^verbatim>\<open>apply_kernel_patches\<close> always terminates: a budget of as many iterations as
  the table has descriptors, or any larger one, lets the loop run to its end with the
  result of the function, and the table of the source file has three descriptors.
\<close>

theorem apply_kernel_patches_terminates:
  "apply_loop_fuel (length (patches w) + extra) 0 w = Some (snd (apply_kernel_patches w)) \<and>
   length sample_patches = 3"
  by (simp add: apply_loop_fuel_enough apply_kernel_patches_def sample_patches_def)

text \<open>
  C8. Both entry points are deterministic: two calls in states that hold the same table
  return the same status and write the same log entries, whatever else differs between
  the states (earlier output, memory, earlier calls).
\<close>

theorem entry_points_deterministic:
  "patches w1 = patches w2 \<Longrightarrow>
   fst (apply_kernel_patches w1) = fst (apply_kernel_patches w2) \<and>
   emitted apply_kernel_patches w1 = emitted apply_kernel_patches w2 \<and>
   fst (verify_kernel_patches w1) = fst (verify_kernel_patches w2) \<and>
   emitted verify_kernel_patches w1 = emitted verify_kernel_patches w2"
  by (simp add: apply_kernel_patches_eq verify_kernel_patches_eq emitted_def)

theorem entry_points_deterministic_witness:
  "patches world_a = patches world_b \<and> world_a \<noteq> world_b \<and>
   fst (apply_kernel_patches world_a) = fst (apply_kernel_patches world_b) \<and>
   emitted apply_kernel_patches world_a = emitted apply_kernel_patches world_b \<and>
   fst (verify_kernel_patches world_a) = fst (verify_kernel_patches world_b) \<and>
   emitted verify_kernel_patches world_a = emitted verify_kernel_patches world_b"
proof -
  have same: "patches world_a = patches world_b"
    by (simp add: world_a_def world_b_def)
  have "task_self world_a \<noteq> task_self world_b"
    by (simp add: world_a_def world_b_def)
  then have differ: "world_a \<noteq> world_b"
    by auto
  show ?thesis
    using same differ entry_points_deterministic [OF same] by simp
qed

text \<open>
  C9. \<^verbatim>\<open>verify_kernel_patches\<close> writes no log output: for every table the call adds
  no entry to the log, which is after the call what it was before.
\<close>

theorem verify_kernel_patches_silent:
  "emitted verify_kernel_patches (w\<lparr>patches := table\<rparr>) = [] \<and>
   stdout (snd (verify_kernel_patches w)) = stdout w"
  by (simp add: verify_kernel_patches_eq emitted_def)

end
